theory Spec2Isabelle
  imports Complex_Main "HOL-Library.AList"
begin

section \<open>JavaScript values shared by the three modules\<close>

text \<open>
  A value that JavaScript code throws. The \<^verbatim>\<open>catch\<close> block of \<^verbatim>\<open>analyzeImages\<close> only asks
  whether the value is an instance of \<^verbatim>\<open>Error\<close> and, if so, reads its \<^verbatim>\<open>message\<close>; subclasses
  (\<^verbatim>\<open>SyntaxError\<close>, \<^verbatim>\<open>TypeError\<close>) are instances of \<^verbatim>\<open>Error\<close> as well.
\<close>

datatype thrown = Error string | NonError

text \<open>
  A value produced by \<^verbatim>\<open>JSON.parse\<close>. Numbers are kept as reals: the code only tests
  \<^verbatim>\<open>typeof x === 'number'\<close> and never computes with them. An object is the list of its own
  properties; a parsed object has every key once.
\<close>

datatype js_value =
    JNull
  | JBool bool
  | JNum real
  | JStr string
  | JArr "js_value list"
  | JObj "(string \<times> js_value) list"

text \<open>
  A string handed to \<^verbatim>\<open>JSON.parse\<close>, identified by what the parser makes of it: either the
  text is rejected (\<open>Malformed raw message\<close>: the raw text and the message of the
  \<^verbatim>\<open>SyntaxError\<close> the engine throws for it), or it is the JSON text of a value
  (\<open>Wellformed v\<close>). \<^verbatim>\<open>JSON.stringify\<close> of a value is the well-formed text of that value,
  which is never the empty string. Where the source gives the parsed value a TypeScript
  type, \<open>'a\<close> is that type.
\<close>

datatype 'a json_text = Malformed string string | Wellformed 'a

fun JSON_parse :: "'a json_text \<Rightarrow> thrown + 'a" where
  "JSON_parse (Malformed raw message) = Inl (Error message)"
| "JSON_parse (Wellformed v) = Inr v"

definition JSON_stringify :: "'a \<Rightarrow> 'a json_text" where
  "JSON_stringify v = Wellformed v"

text \<open>Truthiness of a string, for \<^verbatim>\<open>if (savedProgress)\<close> and \<^verbatim>\<open>raw ? ... : ...\<close>.\<close>

fun truthy_text :: "'a json_text \<Rightarrow> bool" where
  "truthy_text (Malformed raw message) = (raw \<noteq> [])"
| "truthy_text (Wellformed v) = True"

section \<open>App: challenge progress (part\_000, lines 1--350)\<close>

text \<open>
  \<^verbatim>\<open>ChallengeStatus\<close>, \<^verbatim>\<open>ChallengeProgress\<close> and \<^verbatim>\<open>Challenge\<close> are imported from
  \<^verbatim>\<open>./types\<close>; the fields are the ones the code reads and writes. The catalog
  \<^verbatim>\<open>CHALLENGES\<close> is imported from \<^verbatim>\<open>./constants\<close> and is a parameter here.
\<close>

datatype ChallengeStatus = LOCKED | UNLOCKED | COMPLETED

record ChallengeProgress =
  status :: ChallengeStatus
  streak :: int
  previousSimilarityScore :: real

record Challenge =
  challenge_id :: int
  name :: string
  description :: string
  imageUrl :: string

text \<open>
  \<^verbatim>\<open>Record<number, ChallengeProgress>\<close>: the object's own properties, in the order in
  which \<^verbatim>\<open>Object.keys\<close> and \<^verbatim>\<open>JSON.stringify\<close> list them: first the keys that are array
  indices (the integers from 0 to 4294967294) in ascending order, then the other keys
  in the order they were added.
\<close>

type_synonym ProgressMap = "(int \<times> ChallengeProgress) list"

definition array_index :: "int \<Rightarrow> bool" where
  "array_index k = (0 \<le> k \<and> k < 4294967295)"

text \<open>
  The assignment \<^verbatim>\<open>obj[k] = v\<close>: the value of an existing key is replaced where it stands;
  a new array index goes before the first key that is a larger index or no index; any
  other new key goes to the end.
\<close>

fun assign :: "int \<Rightarrow> 'v \<Rightarrow> (int \<times> 'v) list \<Rightarrow> (int \<times> 'v) list" where
  "assign k v [] = [(k, v)]"
| "assign k v ((k', v') # rest) =
     (if k' = k then (k, v) # rest
      else if array_index k \<and> (\<not> array_index k' \<or> k < k') then (k, v) # (k', v') # rest
      else (k', v') # assign k v rest)"

text \<open>
  The \<^verbatim>\<open>CHALLENGES.forEach((challenge, index) => ...)\<close> loop, written twice in the source
  with the same body (lines 65--72 and 78--85).
\<close>

fun forEach_initialProgress :: "Challenge list \<Rightarrow> nat \<Rightarrow> ProgressMap \<Rightarrow> ProgressMap" where
  "forEach_initialProgress [] index initialProgress = initialProgress"
| "forEach_initialProgress (challenge # rest) index initialProgress =
     forEach_initialProgress rest (Suc index)
       (assign (challenge_id challenge)
          \<lparr>status = (if index = 0 then UNLOCKED else LOCKED),
           streak = 0,
           previousSimilarityScore = 0\<rparr>
          initialProgress)"

definition initialProgress :: "Challenge list \<Rightarrow> ProgressMap" where
  "initialProgress CHALLENGES = forEach_initialProgress CHALLENGES 0 []"

text \<open>
  \<^verbatim>\<open>localStorage\<close> as the App uses it for progress: the item under
  \<^verbatim>\<open>PROGRESS_STORAGE_KEY\<close> (\<open>None\<close> when \<^verbatim>\<open>getItem\<close> returns \<^verbatim>\<open>null\<close>), and the
  values passed to \<^verbatim>\<open>setItem\<close> for that key so far, oldest first.
\<close>

record app_storage =
  progress_item :: "ProgressMap json_text option"
  setItem_calls :: "ProgressMap json_text list"

definition setItem_progress :: "ProgressMap json_text \<Rightarrow> app_storage \<Rightarrow> app_storage" where
  "setItem_progress v ls = ls\<lparr>progress_item := Some v, setItem_calls := setItem_calls ls @ [v]\<rparr>"

text \<open>The body of the \<^verbatim>\<open>try\<close> block of the loading effect (lines 60--74).\<close>

definition load_try :: "app_storage \<Rightarrow> Challenge list \<Rightarrow> thrown + ProgressMap" where
  "load_try ls CHALLENGES =
     (case progress_item ls of
        None \<Rightarrow> Inr (initialProgress CHALLENGES)
      | Some savedProgress \<Rightarrow>
          if truthy_text savedProgress then JSON_parse savedProgress
          else Inr (initialProgress CHALLENGES))"

text \<open>
  The loading effect with its \<^verbatim>\<open>catch\<close> block (lines 75--87): what it passes to
  \<^verbatim>\<open>setChallengeProgress\<close> and what it logs with \<^verbatim>\<open>console.error\<close>. \<open>Inl\<close> would be an
  error leaving the effect.
\<close>

record loaded =
  setChallengeProgress :: ProgressMap
  console_error :: "thrown list"

definition load_progress :: "app_storage \<Rightarrow> Challenge list \<Rightarrow> thrown + loaded" where
  "load_progress ls CHALLENGES =
     (case load_try ls CHALLENGES of
        Inr parsed \<Rightarrow> Inr \<lparr>setChallengeProgress = parsed, console_error = []\<rparr>
      | Inl e \<Rightarrow> Inr \<lparr>setChallengeProgress = initialProgress CHALLENGES, console_error = [e]\<rparr>)"

definition Object_keys :: "ProgressMap \<Rightarrow> int list" where
  "Object_keys obj = map fst obj"

text \<open>The persistence effect (lines 91--95), run with the current \<^verbatim>\<open>challengeProgress\<close>.\<close>

definition persist_progress :: "ProgressMap \<Rightarrow> app_storage \<Rightarrow> app_storage" where
  "persist_progress challengeProgress ls =
     (if length (Object_keys challengeProgress) > 0
      then setItem_progress (JSON_stringify challengeProgress) ls
      else ls)"

section \<open>Analysis service (part\_000, lines 351--497)\<close>

subsection \<open>stitchImages\<close>

text \<open>An \<^verbatim>\<open>HTMLImageElement\<close> after its \<^verbatim>\<open>load\<close> event: its source and its dimensions.\<close>

record image =
  src :: string
  width :: nat
  height :: nat

text \<open>The canvas: its size and the \<^verbatim>\<open>drawImage(img, x, y)\<close> calls made on its context.\<close>

record canvas =
  canvas_width :: nat
  canvas_height :: nat
  drawn :: "(image \<times> nat \<times> nat) list"

text \<open>
  What the browser and \<^verbatim>\<open>ApiService\<close> answer: whether \<^verbatim>\<open>getContext('2d')\<close> gives a
  context, the outcome of \<^verbatim>\<open>getLocalImageAsBlobUrl\<close> for a URL, the outcome of decoding an
  image source (\<open>None\<close> fires \<^verbatim>\<open>onerror\<close>, \<open>Some (w, h)\<close> fires \<^verbatim>\<open>onload\<close>), which of the
  two image elements settles first, and the data URL \<^verbatim>\<open>toDataURL('image/jpeg')\<close> gives for
  a canvas.
\<close>

record browser =
  getContext_2d :: bool
  getLocalImageAsBlobUrl :: "string \<Rightarrow> thrown + string"
  decode :: "string \<Rightarrow> (nat \<times> nat) option"
  target_settles_first :: bool
  toDataURL :: "canvas \<Rightarrow> string"

text \<open>\<^verbatim>\<open>new Promise\<close> around one image element: resolves with the element or rejects.\<close>

definition load_image :: "browser \<Rightarrow> string \<Rightarrow> string \<Rightarrow> thrown + image" where
  "load_image b source failure =
     (case decode b source of
        Some (w, h) \<Rightarrow> Inr \<lparr>src = source, width = w, height = h\<rparr>
      | None \<Rightarrow> Inl (Error failure))"

text \<open>\<^verbatim>\<open>Promise.all\<close> of two promises: both values, or the rejection that comes first.\<close>

fun Promise_all :: "bool \<Rightarrow> thrown + 'a \<Rightarrow> thrown + 'b \<Rightarrow> thrown + ('a \<times> 'b)" where
  "Promise_all first (Inr a) (Inr b) = Inr (a, b)"
| "Promise_all first (Inl e) (Inr b) = Inl e"
| "Promise_all first (Inr a) (Inl e) = Inl e"
| "Promise_all first (Inl e1) (Inl e2) = Inl (if first then e1 else e2)"

text \<open>\<^verbatim>\<open>s.split(c)\<close> for a one-character separator, and \<^verbatim>\<open>xs[i]\<close> (\<open>None\<close> is \<^verbatim>\<open>undefined\<close>).\<close>

fun split :: "char \<Rightarrow> string \<Rightarrow> string list" where
  "split c [] = [[]]"
| "split c (x # xs) =
     (if x = c then [] # split c xs
      else (case split c xs of
              [] \<Rightarrow> [[x]]
            | part # parts \<Rightarrow> (x # part) # parts))"

definition index :: "'a list \<Rightarrow> nat \<Rightarrow> 'a option" where
  "index xs i = (if i < length xs then Some (xs ! i) else None)"

definition startsWith :: "string \<Rightarrow> string \<Rightarrow> bool" where
  "startsWith s p = (take (length p) s = p)"

text \<open>
  \<^verbatim>\<open>stitchImages\<close> (lines 358--404): what the promise settles with, and the URLs passed
  to \<^verbatim>\<open>URL.revokeObjectURL\<close> on the way.
\<close>

definition stitchImages ::
    "browser \<Rightarrow> string \<Rightarrow> string \<Rightarrow> (thrown + string option) \<times> string list" where
  "stitchImages b targetImageUrl generatedImageBase64 =
     (if \<not> getContext_2d b then (Inl (Error ''Could not get canvas context''), [])
      else
        (case getLocalImageAsBlobUrl b targetImageUrl of
           Inl e \<Rightarrow> (Inl e, [])
         | Inr blobUrl \<Rightarrow>
             (case Promise_all (target_settles_first b)
                     (load_image b blobUrl (''Failed to load target image: '' @ targetImageUrl))
                     (load_image b (''data:image/jpeg;base64,'' @ generatedImageBase64)
                        ''Failed to load generated image from base64'') of
                Inl e \<Rightarrow> (Inl e, [])
              | Inr (img1, img2) \<Rightarrow>
                  (let canvasWidth = width img1 + width img2;
                       canvasHeight = max (height img1) (height img2);
                       cv = \<lparr>canvas_width = canvasWidth, canvas_height = canvasHeight,
                             drawn = [(img1, 0, 0), (img2, width img1, 0)]\<rparr>;
                       revoked = (if startsWith blobUrl ''blob:'' then [blobUrl] else [])
                   in (Inr (index (split CHR '','' (toDataURL b cv)) 1), revoked)))))"

subsection \<open>analyzeImages\<close>

text \<open>
  \<^verbatim>\<open>result.similarityScore\<close> and \<^verbatim>\<open>result.feedback\<close> on a parsed value: an object
  answers with its own property; an array, a string, a number and a boolean have no
  property of either name (\<open>None\<close> is \<^verbatim>\<open>undefined\<close>). The guard reads a property only after
  \<^verbatim>\<open>!result\<close> was false, so never on \<^verbatim>\<open>null\<close>.
\<close>

fun field :: "js_value \<Rightarrow> string \<Rightarrow> js_value option" where
  "field (JObj properties) key = map_of properties key"
| "field v key = None"

fun truthy :: "js_value \<Rightarrow> bool" where
  "truthy JNull = False"
| "truthy (JBool b) = b"
| "truthy (JNum n) = (n \<noteq> 0)"
| "truthy (JStr s) = (s \<noteq> [])"
| "truthy (JArr xs) = True"
| "truthy (JObj properties) = True"

fun typeof :: "js_value option \<Rightarrow> string" where
  "typeof None = ''undefined''"
| "typeof (Some JNull) = ''object''"
| "typeof (Some (JBool b)) = ''boolean''"
| "typeof (Some (JNum n)) = ''number''"
| "typeof (Some (JStr s)) = ''string''"
| "typeof (Some (JArr xs)) = ''object''"
| "typeof (Some (JObj properties)) = ''object''"

fun Array_isArray :: "js_value option \<Rightarrow> bool" where
  "Array_isArray (Some (JArr xs)) = True"
| "Array_isArray v = False"

text \<open>The guard of line 484.\<close>

definition malformed :: "js_value \<Rightarrow> bool" where
  "malformed result =
     (\<not> truthy result \<or> typeof (field result ''similarityScore'') \<noteq> ''number''
      \<or> \<not> Array_isArray (field result ''feedback''))"

text \<open>
  The \<^verbatim>\<open>User\<close> of \<^verbatim>\<open>../types\<close>, of which the service reads the \<^verbatim>\<open>email\<close>.
\<close>

record types_User =
  email :: string

text \<open>
  The argument of \<^verbatim>\<open>generateContent\<close> (lines 466--479): the model name, the two parts of
  the contents (the text and the \<^verbatim>\<open>data\<close> of the inline JPEG) and the system instruction.
  \<^verbatim>\<open>responseMimeType\<close> and \<^verbatim>\<open>responseSchema\<close> are the same constants in every call and are
  left out.
\<close>

record request =
  model :: string
  part_text :: string
  inlineData :: "string option"
  systemInstruction :: string

text \<open>
  What \<^verbatim>\<open>analyzeImages\<close> depends on: \<^verbatim>\<open>getAi()\<close>, the engine's
  \<^verbatim>\<open>String.prototype.toUpperCase\<close>, the browser of \<^verbatim>\<open>stitchImages\<close>, and
  \<^verbatim>\<open>generateContent\<close>, whose answer to a request is the \<^verbatim>\<open>text\<close> of the response after
  \<^verbatim>\<open>trim()\<close> (\<open>None\<close> when \<^verbatim>\<open>response.text\<close> is \<^verbatim>\<open>undefined\<close>).
\<close>

record scoring_env =
  getAi :: "thrown + unit"
  toUpperCase :: "string \<Rightarrow> string"
  page :: browser
  generateContent :: "request \<Rightarrow> thrown + js_value json_text option"

text \<open>
  The calls on outside resources that the properties below are about, in the order made:
  \<^verbatim>\<open>URL.revokeObjectURL(url)\<close> inside \<^verbatim>\<open>stitchImages\<close>, then
  \<^verbatim>\<open>gemini.models.generateContent\<close>.
\<close>

datatype call = RevokeObjectURL string | GenerateContent request

text \<open>
  \<^verbatim>\<open>getUserName\<close> (lines 418--422). \<^verbatim>\<open>split\<close> never returns an empty array, so element 0
  is there; \<^verbatim>\<open>charAt(0)\<close> is the first character or the empty string, and \<^verbatim>\<open>slice(1)\<close>
  the rest.
\<close>

definition getUserName :: "(string \<Rightarrow> string) \<Rightarrow> string \<Rightarrow> string" where
  "getUserName upper email' =
     (let namePart = hd (split CHR ''@'' email')
      in upper (take 1 (hd (split CHR ''.'' namePart))) @ drop 1 (hd (split CHR ''.'' namePart)))"

text \<open>The two template literals (lines 425--433 and 435--438).\<close>

definition systemPrompt :: "string \<Rightarrow> string" where
  \<open>systemPrompt userName =
     ''You are an expert image analysis AI for a prompt engineering learning tool. Your feedback tone should be quirky and vague, in simple and clear Indian English. Keep technical terms in pure English.\<newline>A student named ''
     @ userName @
     '' is trying to generate an image to match a target image for a prompt engineering challenge.\<newline>Analyze the provided image which contains two images side-by-side. The image on the LEFT is the "target image", and the image on the RIGHT is the student's generated image.\<newline>\<newline>Provide:\<newline>1. A 'similarityScore' from 0-100.\<newline>2. A 'feedback' JSON array of up to 3 strings with prompt improvement suggestions.\<newline>\<newline>Respond ONLY with a JSON object matching the provided schema.''\<close>

definition userTurnPrompt :: "Challenge \<Rightarrow> string \<Rightarrow> string" where
  \<open>userTurnPrompt challenge userPrompt =
     '' Challenge Name: "'' @ name challenge @ ''".\<newline>The goal is: "'' @ description challenge
     @ ''".\<newline>The student's prompt was: "'' @ userPrompt @ ''".\<newline>''\<close>

definition scoring_request ::
    "scoring_env \<Rightarrow> types_User \<Rightarrow> Challenge \<Rightarrow> string option \<Rightarrow> string \<Rightarrow> request" where
  "scoring_request env user challenge stitchedImageBase64 userPrompt =
     \<lparr>model = ''gemini-2.5-flash'',
      part_text = userTurnPrompt challenge userPrompt,
      inlineData = stitchedImageBase64,
      systemInstruction = systemPrompt (getUserName (toUpperCase env) (email user))\<rparr>"

text \<open>The message of the \<^verbatim>\<open>TypeError\<close> for \<^verbatim>\<open>undefined.trim()\<close>, in V8's wording.\<close>

definition TypeError_trim :: thrown where
  "TypeError_trim =
     Error (''Cannot read properties of undefined (reading '' @ [CHR 0x27] @ ''trim''
            @ [CHR 0x27] @ '')'')"

text \<open>The body of the \<^verbatim>\<open>try\<close> block (lines 416--488).\<close>

definition analyze_try ::
    "scoring_env \<Rightarrow> types_User \<Rightarrow> Challenge \<Rightarrow> string \<Rightarrow> string
       \<Rightarrow> (thrown + js_value) \<times> call list" where
  "analyze_try env user challenge generatedImageBase64 userPrompt =
     (case getAi env of
        Inl e \<Rightarrow> (Inl e, [])
      | Inr gemini \<Rightarrow>
          (case stitchImages (page env) (imageUrl challenge) generatedImageBase64 of
             (Inl e, revoked) \<Rightarrow> (Inl e, map RevokeObjectURL revoked)
           | (Inr stitchedImageBase64, revoked) \<Rightarrow>
               (let calls = map RevokeObjectURL revoked
                      @ [GenerateContent
                           (scoring_request env user challenge stitchedImageBase64 userPrompt)] in
                (case generateContent env
                        (scoring_request env user challenge stitchedImageBase64 userPrompt) of
                   Inl e \<Rightarrow> (Inl e, calls)
                 | Inr None \<Rightarrow> (Inl TypeError_trim, calls)
                 | Inr (Some jsonText) \<Rightarrow>
                     (case JSON_parse jsonText of
                        Inl e \<Rightarrow> (Inl e, calls)
                      | Inr result \<Rightarrow>
                          if malformed result
                          then (Inl (Error ''Model returned malformed analysis data.''), calls)
                          else (Inr result, calls))))))"

text \<open>The \<^verbatim>\<open>catch\<close> block (lines 490--496): what is thrown on to the caller.\<close>

fun rethrow :: "thrown \<Rightarrow> thrown" where
  "rethrow (Error message) = Error (''Analysis failed: '' @ message)"
| "rethrow NonError = Error ''An unknown error occurred during analysis.''"

definition analyzeImages ::
    "scoring_env \<Rightarrow> types_User \<Rightarrow> Challenge \<Rightarrow> string \<Rightarrow> string
       \<Rightarrow> (thrown + js_value) \<times> call list" where
  "analyzeImages env user challenge generatedImageBase64 userPrompt =
     (case analyze_try env user challenge generatedImageBase64 userPrompt of
        (Inl error, calls) \<Rightarrow> (Inl (rethrow error), calls)
      | (Inr result, calls) \<Rightarrow> (Inr result, calls))"

section \<open>Auth service (part\_001)\<close>

record User =
  username :: string

text \<open>
  The module variable \<^verbatim>\<open>currentUser\<close> and the two \<^verbatim>\<open>localStorage\<close> items of the module,
  under \<^verbatim>\<open>USERS_KEY\<close> and \<^verbatim>\<open>CURRENT_USER_KEY\<close>. The users record
  (\<^verbatim>\<open>Record<string, string>\<close>) is the list of its own properties. The list keeps the
  keys in the order they were added; the engine would list keys that are array indices
  (such as \<^verbatim>\<open>'5'\<close>) first, a difference that no operation of the module observes: they
  read and write single properties.
\<close>

type_synonym users = "(string \<times> string) list"

record auth_state =
  currentUser :: "User option"
  users_item :: "users json_text option"
  current_user_item :: "User json_text option"

definition getUsers :: "auth_state \<Rightarrow> thrown + users" where
  "getUsers s =
     (case users_item s of
        None \<Rightarrow> Inr []
      | Some raw \<Rightarrow> if truthy_text raw then JSON_parse raw else Inr [])"

definition setUsers :: "users \<Rightarrow> auth_state \<Rightarrow> auth_state" where
  "setUsers users s = s\<lparr>users_item := Some (JSON_stringify users)\<rparr>"

definition setCurrentUser :: "User option \<Rightarrow> auth_state \<Rightarrow> auth_state" where
  "setCurrentUser user s =
     (case user of
        Some u \<Rightarrow> s\<lparr>currentUser := user, current_user_item := Some (JSON_stringify u)\<rparr>
      | None \<Rightarrow> s\<lparr>currentUser := user, current_user_item := None\<rparr>)"

text \<open>
  \<^verbatim>\<open>users[username]\<close>: the own property if there is one; otherwise what the object inherits
  from \<^verbatim>\<open>Object.prototype\<close> under that name (a function or an object, never a string);
  otherwise \<^verbatim>\<open>undefined\<close>.
\<close>

datatype property = Undefined | Inherited | Own string

definition Object_prototype :: "string list" where
  "Object_prototype =
     [''constructor'', ''hasOwnProperty'', ''isPrototypeOf'', ''propertyIsEnumerable'',
      ''toLocaleString'', ''toString'', ''valueOf'', ''__proto__'',
      ''__defineGetter__'', ''__defineSetter__'', ''__lookupGetter__'', ''__lookupSetter__'']"

definition get :: "users \<Rightarrow> string \<Rightarrow> property" where
  "get users key =
     (case map_of users key of
        Some v \<Rightarrow> Own v
      | None \<Rightarrow> if key \<in> set Object_prototype then Inherited else Undefined)"

fun truthy_property :: "property \<Rightarrow> bool" where
  "truthy_property Undefined = False"
| "truthy_property Inherited = True"
| "truthy_property (Own v) = (v \<noteq> [])"

text \<open>
  \<^verbatim>\<open>login\<close>, \<^verbatim>\<open>signup\<close> and \<^verbatim>\<open>getCurrentUser\<close>, after the \<^verbatim>\<open>setTimeout\<close> delay: the
  value the promise settles with (\<open>Inl\<close> a rejection) and the state left behind.
\<close>

definition login :: "string \<Rightarrow> string \<Rightarrow> auth_state \<Rightarrow> (thrown + User) \<times> auth_state" where
  "login username' password s =
     (case getUsers s of
        Inl e \<Rightarrow> (Inl e, s)
      | Inr users \<Rightarrow>
          if \<not> truthy_property (get users username')
          then (Inl (Error ''User not found. Please sign up first.''), s)
          else if get users username' \<noteq> Own password
          then (Inl (Error ''Incorrect password.''), s)
          else (let user = \<lparr>username = username'\<rparr>
                in (Inr user, setCurrentUser (Some user) s)))"

definition signup :: "string \<Rightarrow> string \<Rightarrow> auth_state \<Rightarrow> (thrown + User) \<times> auth_state" where
  "signup username' password s =
     (case getUsers s of
        Inl e \<Rightarrow> (Inl e, s)
      | Inr users \<Rightarrow>
          if truthy_property (get users username')
          then (Inl (Error ''Username already exists.''), s)
          else (let users' = AList.update username' password users;
                    s' = setUsers users' s;
                    user = \<lparr>username = username'\<rparr>
                in (Inr user, setCurrentUser (Some user) s')))"

definition getCurrentUser :: "auth_state \<Rightarrow> User option \<times> auth_state" where
  "getCurrentUser s =
     (case currentUser s of
        Some u \<Rightarrow> (Some u, s)
      | None \<Rightarrow>
          (case current_user_item s of
             None \<Rightarrow> (None, s)
           | Some raw \<Rightarrow>
               if truthy_text raw
               then (case JSON_parse raw of
                       Inr u \<Rightarrow> (Some u, s\<lparr>currentUser := Some u\<rparr>)
                     | Inl e \<Rightarrow> (None, s))
               else (None, s)))"

section \<open>The spec's wording of the result schema\<close>

text \<open>
  Following the spec's words (section 4.2 and section 6), not the code: a response conforms
  when it is an object whose \<^verbatim>\<open>similarityScore\<close> is a number and whose \<^verbatim>\<open>feedback\<close> is a
  sequence of strings of length at most 3. The code's own guard is \<^const>\<open>malformed\<close>.
\<close>

fun is_string :: "js_value \<Rightarrow> bool" where
  "is_string (JStr s) = True"
| "is_string v = False"

definition spec_response_schema :: "js_value \<Rightarrow> bool" where
  "spec_response_schema v =
     (case (field v ''similarityScore'', field v ''feedback'') of
        (Some (JNum n), Some (JArr xs)) \<Rightarrow> list_all is_string xs \<and> length xs \<le> 3
      | _ \<Rightarrow> False)"

text \<open>
  Following the spec's words (section 3, AnalysisResult): the score lies between 0 and 100
  inclusive and the feedback is a sequence of up to 3 strings.
\<close>

definition spec_AnalysisResult :: "js_value \<Rightarrow> bool" where
  "spec_AnalysisResult v =
     (case (field v ''similarityScore'', field v ''feedback'') of
        (Some (JNum n), Some (JArr xs)) \<Rightarrow>
          0 \<le> n \<and> n \<le> 100 \<and> list_all is_string xs \<and> length xs \<le> 3
      | _ \<Rightarrow> False)"

section \<open>Concrete inputs\<close>

definition example_catalog :: "Challenge list" where
  "example_catalog =
     [\<lparr>challenge_id = 5, name = ''City'', description = ''A city at night'',
       imageUrl = ''/targets/5.png''\<rparr>,
      \<lparr>challenge_id = 1, name = ''Sunset'', description = ''A sunset over the sea'',
       imageUrl = ''/targets/1.png''\<rparr>,
      \<lparr>challenge_id = 2, name = ''Robot'', description = ''A robot reading'',
       imageUrl = ''/targets/2.png''\<rparr>]"

definition example_challenge :: Challenge where
  "example_challenge =
     \<lparr>challenge_id = 1, name = ''Sunset'', description = ''A sunset over the sea'',
      imageUrl = ''/targets/1.png''\<rparr>"

text \<open>
  A page where everything works: the target is fetched into an object URL, the target
  decodes to 640 x 480 and the generated image to 512 x 512.
\<close>

definition example_browser :: browser where
  "example_browser =
     \<lparr>getContext_2d = True,
      getLocalImageAsBlobUrl = (\<lambda>url. Inr (''blob:'' @ url)),
      decode = (\<lambda>source. if startsWith source ''blob:'' then Some (640, 480) else Some (512, 512)),
      target_settles_first = True,
      toDataURL = (\<lambda>cv. ''data:image/jpeg;base64,AAAA'')\<rparr>"

text \<open>The same page when the generated image does not decode.\<close>

definition leaking_browser :: browser where
  "leaking_browser =
     example_browser\<lparr>decode := (\<lambda>source. if startsWith source ''blob:'' then Some (640, 480) else None)\<rparr>"

text \<open>An environment whose oracle gives one fixed answer.\<close>

definition oracle_env :: "thrown + js_value json_text option \<Rightarrow> scoring_env" where
  "oracle_env answer =
     \<lparr>getAi = Inr (),
      toUpperCase = map (\<lambda>c. if 97 \<le> (of_char c :: nat) \<and> (of_char c :: nat) \<le> 122
                              then char_of (of_char c - 32 :: nat) else c),
      page = example_browser,
      generateContent = (\<lambda>request. answer)\<rparr>"

definition example_user :: types_User where
  "example_user = \<lparr>email = ''john.doe@example.com''\<rparr>"

definition example_prompt :: string where
  "example_prompt = ''a sunset over the sea, oil painting''"

text \<open>Nothing stored and nobody logged in.\<close>

definition fresh_auth :: auth_state where
  "fresh_auth = \<lparr>currentUser = None, users_item = None, current_user_item = None\<rparr>"

section \<open>Default progress\<close>

text \<open>What an assignment does to lookups, to the keys and to their number.\<close>

lemma map_of_assign: "map_of (assign k v al) = (map_of al)(k \<mapsto> v)"
  by (induction al) (auto simp: fun_upd_twist)

lemma keys_assign: "fst ` set (assign k v al) = insert k (fst ` set al)"
  by (simp add: dom_map_of_conv_image_fst [symmetric] map_of_assign)

lemma distinct_assign:
  "k \<notin> fst ` set al \<Longrightarrow> distinct (map fst al) \<Longrightarrow> distinct (map fst (assign k v al))"
  by (induction al) (auto simp: keys_assign)

lemma length_assign: "k \<notin> fst ` set al \<Longrightarrow> length (assign k v al) = Suc (length al)"
  by (induction al) auto

text \<open>The loop: the record found under each id, the keys, and their number.\<close>

lemma forEach_initialProgress_other:
  "x \<notin> challenge_id ` set cs \<Longrightarrow> map_of (forEach_initialProgress cs k acc) x = map_of acc x"
  by (induction cs arbitrary: k acc) (auto simp: map_of_assign)

lemma forEach_initialProgress_lookup:
  "distinct (map challenge_id cs) \<Longrightarrow> i < length cs \<Longrightarrow>
   map_of (forEach_initialProgress cs k acc) (challenge_id (cs ! i)) =
     Some \<lparr>status = (if k + i = 0 then UNLOCKED else LOCKED), streak = 0,
           previousSimilarityScore = 0\<rparr>"
proof (induction cs arbitrary: k acc i)
  case Nil
  then show ?case by simp
next
  case (Cons c cs)
  show ?case
  proof (cases i)
    case 0
    from Cons.prems have "challenge_id c \<notin> challenge_id ` set cs" by simp
    then show ?thesis using 0
      by (simp add: forEach_initialProgress_other map_of_assign)
  next
    case (Suc j)
    with Cons.prems have "distinct (map challenge_id cs)" and "j < length cs" by simp_all
    from Cons.IH [OF this, of "Suc k"] show ?thesis using Suc by simp
  qed
qed

lemma forEach_initialProgress_keys:
  "fst ` set (forEach_initialProgress cs k acc) = fst ` set acc \<union> challenge_id ` set cs"
  by (induction cs arbitrary: k acc) (auto simp: keys_assign)

lemma forEach_initialProgress_distinct:
  "distinct (map fst acc @ map challenge_id cs) \<Longrightarrow>
   distinct (map fst (forEach_initialProgress cs k acc))
   \<and> length (forEach_initialProgress cs k acc) = length acc + length cs"
proof (induction cs arbitrary: k acc)
  case Nil
  then show ?case by simp
next
  case (Cons c cs)
  let ?acc = "assign (challenge_id c)
      \<lparr>status = (if k = 0 then UNLOCKED else LOCKED), streak = 0, previousSimilarityScore = 0\<rparr> acc"
  from Cons.prems have fresh: "challenge_id c \<notin> fst ` set acc" by auto
  from Cons.prems have "distinct (map fst acc)" by simp
  with fresh have d: "distinct (map fst ?acc)" by (rule distinct_assign)
  have "fst ` set ?acc = insert (challenge_id c) (fst ` set acc)" by (rule keys_assign)
  with Cons.prems d have "distinct (map fst ?acc @ map challenge_id cs)"
    by auto
  from Cons.IH [OF this, of "Suc k"] show ?case
    by (simp add: length_assign [OF fresh])
qed

text \<open>
  The order of the keys: when every id is an array index, \<^verbatim>\<open>Object.keys\<close> lists the ids in
  ascending order, whatever the order of the catalog.
\<close>

lemma sorted_assign:
  "\<forall>x \<in> fst ` set al. array_index x \<Longrightarrow> array_index k \<Longrightarrow> sorted (map fst al) \<Longrightarrow>
   sorted (map fst (assign k v al))"
proof (induction al)
  case Nil
  then show ?case by simp
next
  case (Cons p rest)
  obtain k' v' where p: "p = (k', v')" by (cases p)
  have keys: "fst ` set (assign k v rest) = insert k (fst ` set rest)"
    by (rule keys_assign)
  from Cons.prems p have low: "\<forall>y \<in> fst ` set rest. k' \<le> y" and s: "sorted (map fst rest)"
    and idx: "array_index k'" "\<forall>x \<in> fst ` set rest. array_index x"
    by auto
  from Cons.IH [OF idx(2) Cons.prems(2) s] have ih: "sorted (map fst (assign k v rest))" .
  show ?case
  proof (cases "k' = k")
    case True
    with low s p show ?thesis by auto
  next
    case False
    show ?thesis
    proof (cases "k < k'")
      case True
      with low have "\<forall>y \<in> fst ` set rest. k \<le> y" by fastforce
      with True False Cons.prems(2) s low p show ?thesis by auto
    next
      case ge: False
      from ge False low keys have "\<forall>y \<in> fst ` set (assign k v rest). k' \<le> y"
        by auto
      with ih False ge idx p show ?thesis by auto
    qed
  qed
qed

lemma forEach_initialProgress_sorted:
  "\<forall>x \<in> fst ` set acc. array_index x \<Longrightarrow> \<forall>c \<in> set cs. array_index (challenge_id c) \<Longrightarrow>
   sorted (map fst acc) \<Longrightarrow> sorted (map fst (forEach_initialProgress cs k acc))"
proof (induction cs arbitrary: k acc)
  case Nil
  then show ?case by simp
next
  case (Cons c cs)
  let ?acc = "assign (challenge_id c)
      \<lparr>status = (if k = 0 then UNLOCKED else LOCKED), streak = 0, previousSimilarityScore = 0\<rparr> acc"
  from Cons.prems have c: "array_index (challenge_id c)" by simp
  have "fst ` set ?acc = insert (challenge_id c) (fst ` set acc)" by (rule keys_assign)
  with Cons.prems(1) c have a: "\<forall>x \<in> fst ` set ?acc. array_index x" by auto
  from Cons.prems(2) have b: "\<forall>c \<in> set cs. array_index (challenge_id c)" by simp
  from Cons.prems(1) c Cons.prems(3) have "sorted (map fst ?acc)" by (rule sorted_assign)
  from Cons.IH [OF a b this, of "Suc k"] show ?case by simp
qed

lemma initialProgress_keys_ascending:
  assumes "distinct (map challenge_id CHALLENGES)"
    and "\<forall>c \<in> set CHALLENGES. array_index (challenge_id c)"
  shows "map fst (initialProgress CHALLENGES) = sort (map challenge_id CHALLENGES)"
proof (rule sorted_distinct_set_unique)
  show "sorted (map fst (initialProgress CHALLENGES))"
    unfolding initialProgress_def using assms(2)
    by (intro forEach_initialProgress_sorted) simp_all
  show "distinct (map fst (initialProgress CHALLENGES))"
    unfolding initialProgress_def
    using forEach_initialProgress_distinct [of "[]" CHALLENGES 0] assms(1) by simp
  show "sorted (sort (map challenge_id CHALLENGES))" by simp
  show "distinct (sort (map challenge_id CHALLENGES))" using assms(1) by simp
  show "set (map fst (initialProgress CHALLENGES)) = set (sort (map challenge_id CHALLENGES))"
    unfolding initialProgress_def by (simp add: forEach_initialProgress_keys)
qed

text \<open>The example catalog has the ids 5, 1, 2 in this order; its keys are listed as 1, 2, 5.\<close>

lemma example_catalog_keys: "map fst (initialProgress example_catalog) = [1, 2, 5]"
  by (simp add: initialProgress_def example_catalog_def array_index_def)

text \<open>
  Why the ids must differ: the catalog is written into an object keyed by id, so a later
  entry with the id of the first one replaces the first one's record.
\<close>

lemma initialProgress_repeated_id:
  "initialProgress [example_challenge, example_challenge] =
     [(1, \<lparr>status = LOCKED, streak = 0, previousSimilarityScore = 0\<rparr>)]"
  by (simp add: initialProgress_def example_challenge_def)

text \<open>
  Claim C2. For every challenge catalog (its ids unique, as the data model has them),
  initializing default progress produces exactly one ChallengeProgress record per catalog
  entry: as many records as entries, under pairwise different keys that are exactly the
  catalog's ids; the record of the first entry in catalog order is Unlocked, the record of
  every other entry is Locked, and every record has streak 0 and previousSimilarityScore 0.
\<close>

theorem initialProgress_defaults:
  assumes "distinct (map challenge_id CHALLENGES)"
  shows "length (initialProgress CHALLENGES) = length CHALLENGES
    \<and> distinct (map fst (initialProgress CHALLENGES))
    \<and> set (map fst (initialProgress CHALLENGES)) = set (map challenge_id CHALLENGES)
    \<and> (\<forall>index < length CHALLENGES.
         map_of (initialProgress CHALLENGES) (challenge_id (CHALLENGES ! index)) =
           Some \<lparr>status = (if index = 0 then UNLOCKED else LOCKED), streak = 0,
                 previousSimilarityScore = 0\<rparr>)"
proof (intro conjI allI impI)
  from assms have d: "distinct (map fst ([] :: ProgressMap) @ map challenge_id CHALLENGES)"
    by simp
  note dl = forEach_initialProgress_distinct [OF d, of 0]
  from dl show "length (initialProgress CHALLENGES) = length CHALLENGES"
    by (simp add: initialProgress_def)
  from dl show "distinct (map fst (initialProgress CHALLENGES))"
    by (simp add: initialProgress_def)
  show "set (map fst (initialProgress CHALLENGES)) = set (map challenge_id CHALLENGES)"
    unfolding initialProgress_def by (simp add: forEach_initialProgress_keys)
  fix index assume "index < length CHALLENGES"
  from forEach_initialProgress_lookup [OF assms this, of 0 "[]"]
  show "map_of (initialProgress CHALLENGES) (challenge_id (CHALLENGES ! index)) =
           Some \<lparr>status = (if index = 0 then UNLOCKED else LOCKED), streak = 0,
                 previousSimilarityScore = 0\<rparr>"
    by (simp add: initialProgress_def)
qed

theorem initialProgress_defaults_witness:
  "distinct (map challenge_id example_catalog)
   \<and> length (initialProgress example_catalog) = 3
   \<and> distinct (map fst (initialProgress example_catalog))
   \<and> set (map fst (initialProgress example_catalog)) = {5, 1, 2}
   \<and> map_of (initialProgress example_catalog) 5 =
        Some \<lparr>status = UNLOCKED, streak = 0, previousSimilarityScore = 0\<rparr>
   \<and> map_of (initialProgress example_catalog) 1 =
        Some \<lparr>status = LOCKED, streak = 0, previousSimilarityScore = 0\<rparr>
   \<and> map_of (initialProgress example_catalog) 2 =
        Some \<lparr>status = LOCKED, streak = 0, previousSimilarityScore = 0\<rparr>"
proof -
  have d: "distinct (map challenge_id example_catalog)"
    by (simp add: example_catalog_def)
  have l: "length example_catalog = 3" by (simp add: example_catalog_def)
  note t = initialProgress_defaults [OF d]
  from t have len: "length (initialProgress example_catalog) = 3" using l by simp
  from t have dk: "distinct (map fst (initialProgress example_catalog))" by simp
  from t have keys: "set (map fst (initialProgress example_catalog)) = set (map challenge_id example_catalog)"
    by simp
  from t l have e0: "map_of (initialProgress example_catalog) (challenge_id (example_catalog ! 0)) =
      Some \<lparr>status = (if (0::nat) = 0 then UNLOCKED else LOCKED), streak = 0,
            previousSimilarityScore = 0\<rparr>"
    by simp
  from t l have e1: "map_of (initialProgress example_catalog) (challenge_id (example_catalog ! 1)) =
      Some \<lparr>status = (if (1::nat) = 0 then UNLOCKED else LOCKED), streak = 0,
            previousSimilarityScore = 0\<rparr>"
    by simp
  from t l have e2: "map_of (initialProgress example_catalog) (challenge_id (example_catalog ! 2)) =
      Some \<lparr>status = (if (2::nat) = 0 then UNLOCKED else LOCKED), streak = 0,
            previousSimilarityScore = 0\<rparr>"
    by simp
  from d len dk keys e0 e1 e2 show ?thesis by (simp add: example_catalog_def)
qed

section \<open>Loading and persisting progress\<close>

lemma load_progress_total: "\<exists>r. load_progress ls CHALLENGES = Inr r"
  by (simp add: load_progress_def split: sum.splits)

text \<open>
  Claim C7. For every load of persisted progress: if durable storage has no saved value,
  or the saved value fails to parse, the result is the initialized default ProgressMap;
  a parse failure is only logged and never leaves the effect as an error. (An empty saved
  string counts as no saved value and is not even parsed.)
\<close>

theorem load_progress_falls_back:
  assumes "progress_item ls = None
    \<or> (\<exists>raw message. progress_item ls = Some (Malformed raw message))"
  shows "load_progress ls CHALLENGES =
     Inr \<lparr>setChallengeProgress = initialProgress CHALLENGES,
          console_error =
            (case progress_item ls of
               Some (Malformed raw message) \<Rightarrow> if raw = [] then [] else [Error message]
             | _ \<Rightarrow> [])\<rparr>"
  using assms by (auto simp: load_progress_def load_try_def)

theorem load_progress_falls_back_witness:
  "load_progress
     \<lparr>progress_item = Some (Malformed ''{oops'' ''Unexpected token o in JSON''), setItem_calls = []\<rparr>
     example_catalog =
   Inr \<lparr>setChallengeProgress = initialProgress example_catalog,
        console_error = [Error ''Unexpected token o in JSON'']\<rparr>
   \<and> load_progress \<lparr>progress_item = None, setItem_calls = []\<rparr> example_catalog =
   Inr \<lparr>setChallengeProgress = initialProgress example_catalog, console_error = []\<rparr>"
  using load_progress_falls_back
          [of "\<lparr>progress_item = Some (Malformed ''{oops'' ''Unexpected token o in JSON''),
                setItem_calls = []\<rparr>" example_catalog]
        load_progress_falls_back [of "\<lparr>progress_item = None, setItem_calls = []\<rparr>" example_catalog]
  by simp

text \<open>The first render runs the persistence effect with the empty initial state.\<close>

lemma persist_progress_empty: "persist_progress [] ls = ls"
  by (simp add: persist_progress_def Object_keys_def)

text \<open>
  Claim C8. The persistence operation never writes an empty ProgressMap: for every state
  of the progress map, \<^verbatim>\<open>setItem\<close> is called only when the map has at least one entry, and
  then with the JSON text of that map.
\<close>

theorem persist_progress_nonempty:
  assumes "setItem_calls (persist_progress challengeProgress ls) \<noteq> setItem_calls ls"
  shows "challengeProgress \<noteq> []
     \<and> setItem_calls (persist_progress challengeProgress ls) =
         setItem_calls ls @ [Wellformed challengeProgress]"
  using assms
  by (auto simp: persist_progress_def setItem_progress_def Object_keys_def JSON_stringify_def
        split: if_splits)

theorem persist_progress_nonempty_witness:
  "setItem_calls (persist_progress (initialProgress example_catalog)
      \<lparr>progress_item = None, setItem_calls = []\<rparr>)
     = [Wellformed (initialProgress example_catalog)]
   \<and> initialProgress example_catalog \<noteq> []"
proof -
  have "setItem_calls (persist_progress (initialProgress example_catalog)
          \<lparr>progress_item = None, setItem_calls = []\<rparr>)
     \<noteq> setItem_calls \<lparr>progress_item = None, setItem_calls = []\<rparr>"
    by (simp add: persist_progress_def setItem_progress_def Object_keys_def initialProgress_def
          example_catalog_def)
  from persist_progress_nonempty [OF this] show ?thesis by simp
qed

section \<open>Composing the two images\<close>

text \<open>
  Claim C6. For every pair of successfully decoded input images (with a canvas context
  and the target fetched), the compose operation lays them out side by side on a canvas
  whose width is the sum of the two image widths and whose height is the maximum of the
  two image heights, the target image on the left at x = 0 and the candidate image on the
  right at x = target width, and returns the re-encoded composite: the part of the canvas's
  JPEG data URL after the comma.
\<close>

theorem stitchImages_side_by_side:
  assumes "getContext_2d b"
    and "getLocalImageAsBlobUrl b targetImageUrl = Inr blobUrl"
    and "decode b blobUrl = Some (w1, h1)"
    and "decode b (''data:image/jpeg;base64,'' @ generatedImageBase64) = Some (w2, h2)"
  shows "fst (stitchImages b targetImageUrl generatedImageBase64) =
     Inr (index (split CHR '','' (toDataURL b
        \<lparr>canvas_width = w1 + w2, canvas_height = max h1 h2,
         drawn = [(\<lparr>src = blobUrl, width = w1, height = h1\<rparr>, 0, 0),
                  (\<lparr>src = ''data:image/jpeg;base64,'' @ generatedImageBase64,
                    width = w2, height = h2\<rparr>, w1, 0)]\<rparr>)) 1)"
  using assms by (simp add: stitchImages_def load_image_def Let_def)

theorem stitchImages_side_by_side_witness:
  "getContext_2d example_browser
   \<and> getLocalImageAsBlobUrl example_browser ''/targets/1.png'' = Inr ''blob:/targets/1.png''
   \<and> decode example_browser ''blob:/targets/1.png'' = Some (640, 480)
   \<and> decode example_browser (''data:image/jpeg;base64,'' @ ''QUJD'') = Some (512, 512)
   \<and> fst (stitchImages example_browser ''/targets/1.png'' ''QUJD'') =
       Inr (index (split CHR '','' (toDataURL example_browser
         \<lparr>canvas_width = 1152, canvas_height = 512,
          drawn = [(\<lparr>src = ''blob:/targets/1.png'', width = 640, height = 480\<rparr>, 0, 0),
                   (\<lparr>src = ''data:image/jpeg;base64,QUJD'', width = 512, height = 512\<rparr>,
                    640, 0)]\<rparr>)) 1)"
proof -
  have h1: "getContext_2d example_browser" by (simp add: example_browser_def)
  have h2: "getLocalImageAsBlobUrl example_browser ''/targets/1.png'' = Inr ''blob:/targets/1.png''"
    by (simp add: example_browser_def)
  have h3: "decode example_browser ''blob:/targets/1.png'' = Some (640, 480)"
    by (simp add: example_browser_def startsWith_def)
  have h4: "decode example_browser (''data:image/jpeg;base64,'' @ ''QUJD'') = Some (512, 512)"
    by (simp add: example_browser_def startsWith_def)
  from stitchImages_side_by_side [OF h1 h2 h3 h4] h1 h2 h3 h4 show ?thesis by simp
qed

text \<open>On the path that returns, an object URL is revoked (before the canvas is encoded).\<close>

lemma stitchImages_revokes_on_success:
  assumes "getContext_2d b"
    and "getLocalImageAsBlobUrl b targetImageUrl = Inr blobUrl"
    and "decode b blobUrl = Some (w1, h1)"
    and "decode b (''data:image/jpeg;base64,'' @ generatedImageBase64) = Some (w2, h2)"
  shows "snd (stitchImages b targetImageUrl generatedImageBase64) =
     (if startsWith blobUrl ''blob:'' then [blobUrl] else [])"
  using assms by (simp add: stitchImages_def load_image_def Let_def)

text \<open>On every path that throws, nothing is revoked.\<close>

lemma stitchImages_failure_revokes_nothing:
  "fst (stitchImages b targetImageUrl generatedImageBase64) = Inl e \<Longrightarrow>
   snd (stitchImages b targetImageUrl generatedImageBase64) = []"
  by (auto simp: stitchImages_def Let_def split: sum.splits if_splits prod.splits)

text \<open>
  Claim C4. Every execution of the compose operation that allocates a blob URL for the
  fetched target image should release it whether the operation succeeds or fails. The code
  does not: here the target is fetched into the object URL \<^verbatim>\<open>blob:/targets/1.png\<close>, the
  generated image fails to decode, \<^verbatim>\<open>stitchImages\<close> throws, and \<^verbatim>\<open>revokeObjectURL\<close> is never
  called.
\<close>

theorem stitchImages_leaks_on_load_failure:
  "getLocalImageAsBlobUrl leaking_browser ''/targets/1.png'' = Inr ''blob:/targets/1.png''
   \<and> stitchImages leaking_browser ''/targets/1.png'' ''QUJD'' =
       (Inl (Error ''Failed to load generated image from base64''), [])"
  by (simp add: stitchImages_def load_image_def leaking_browser_def example_browser_def
        startsWith_def)

section \<open>Scoring\<close>

lemma split_nonempty: "split c s \<noteq> []"
  by (induction s) (auto split: list.splits)

text \<open>The example of the source's comment: \<^verbatim>\<open>'john.doe' -> 'John'\<close>.\<close>

lemma getUserName_example:
  "getUserName (toUpperCase (oracle_env a)) (email example_user) = ''John''"
  by code_simp

lemma typeof_number: "(typeof v = ''number'') = (\<exists>n. v = Some (JNum n))"
  by (cases v rule: typeof.cases) simp_all

lemma Array_isArray_iff: "Array_isArray v = (\<exists>xs. v = Some (JArr xs))"
  by (cases v rule: Array_isArray.cases) simp_all

lemma accepted_iff:
  "(\<not> malformed result) =
     (\<exists>properties n xs. result = JObj properties
        \<and> map_of properties ''similarityScore'' = Some (JNum n)
        \<and> map_of properties ''feedback'' = Some (JArr xs))"
  by (cases result) (simp_all add: malformed_def typeof_number Array_isArray_iff)

text \<open>The example page stitches the example challenge, whatever the oracle answers.\<close>

lemma example_stitched:
  "stitchImages (page (oracle_env a)) (imageUrl example_challenge) ''QUJD'' =
     (Inr (Some ''AAAA''), [''blob:/targets/1.png''])"
  by (simp add: oracle_env_def example_browser_def example_challenge_def stitchImages_def
        load_image_def startsWith_def index_def Let_def)

lemma example_analyze_try:
  "analyze_try (oracle_env a) example_user example_challenge ''QUJD'' example_prompt =
     (let calls = [RevokeObjectURL ''blob:/targets/1.png'',
                   GenerateContent (scoring_request (oracle_env a) example_user example_challenge
                                      (Some ''AAAA'') example_prompt)]
      in case a of
           Inl e \<Rightarrow> (Inl e, calls)
         | Inr None \<Rightarrow> (Inl TypeError_trim, calls)
         | Inr (Some jsonText) \<Rightarrow>
             (case JSON_parse jsonText of
                Inl e \<Rightarrow> (Inl e, calls)
              | Inr result \<Rightarrow>
                  if malformed result
                  then (Inl (Error ''Model returned malformed analysis data.''), calls)
                  else (Inr result, calls)))"
proof -
  have g: "generateContent (oracle_env a) q = a" for q
    by (simp add: oracle_env_def)
  have ai: "getAi (oracle_env a) = Inr ()"
    by (simp add: oracle_env_def)
  show ?thesis
    by (simp add: analyze_try_def example_stitched g ai Let_def split: sum.splits option.splits)
qed

text \<open>
  Claim C1, as amended. For every oracle response (the client obtained, the images
  stitched and the oracle reached), the scoring operation returns the parsed value exactly
  when the response text parses to an object whose \<^verbatim>\<open>similarityScore\<close> is a number and whose
  \<^verbatim>\<open>feedback\<close> is an array; the elements of the array and its length are not checked. A
  response with no text, an unparseable text, or a value without such fields makes the
  call fail with an error, and nothing is returned.
\<close>

theorem analyzeImages_response:
  assumes "getAi env = Inr ()"
    and "stitchImages (page env) (imageUrl challenge) generatedImageBase64 = (Inr payload, revoked)"
    and "generateContent env (scoring_request env user challenge payload userPrompt) = Inr response"
  shows "fst (analyzeImages env user challenge generatedImageBase64 userPrompt) =
     (case response of
        None \<Rightarrow> Inl (rethrow TypeError_trim)
      | Some (Malformed raw message) \<Rightarrow> Inl (Error (''Analysis failed: '' @ message))
      | Some (Wellformed result) \<Rightarrow>
          if malformed result
          then Inl (Error ''Analysis failed: Model returned malformed analysis data.'')
          else Inr result)
    \<and> ((\<not> malformed parsed) =
         (\<exists>properties n xs. parsed = JObj properties
            \<and> map_of properties ''similarityScore'' = Some (JNum n)
            \<and> map_of properties ''feedback'' = Some (JArr xs)))"
proof (intro conjI)
  show "fst (analyzeImages env user challenge generatedImageBase64 userPrompt) =
     (case response of
        None \<Rightarrow> Inl (rethrow TypeError_trim)
      | Some (Malformed raw message) \<Rightarrow> Inl (Error (''Analysis failed: '' @ message))
      | Some (Wellformed result) \<Rightarrow>
          if malformed result
          then Inl (Error ''Analysis failed: Model returned malformed analysis data.'')
          else Inr result)"
    using assms
    by (simp add: analyzeImages_def analyze_try_def Let_def
          split: option.splits json_text.splits)
  show "(\<not> malformed parsed) =
         (\<exists>properties n xs. parsed = JObj properties
            \<and> map_of properties ''similarityScore'' = Some (JNum n)
            \<and> map_of properties ''feedback'' = Some (JArr xs))"
    by (rule accepted_iff)
qed

theorem analyzeImages_response_witness:
  "getAi (oracle_env (Inr (Some (Wellformed
      (JObj [(''similarityScore'', JNum 85),
             (''feedback'', JArr [JStr ''Mention the lighting''])]))))) = Inr ()
   \<and> fst (analyzeImages (oracle_env (Inr (Some (Wellformed
            (JObj [(''similarityScore'', JNum 85),
                   (''feedback'', JArr [JStr ''Mention the lighting''])])))))
          example_user example_challenge ''QUJD'' example_prompt) =
       Inr (JObj [(''similarityScore'', JNum 85),
                  (''feedback'', JArr [JStr ''Mention the lighting''])])
   \<and> fst (analyzeImages (oracle_env (Inr (Some (Wellformed
            (JObj [(''similarityScore'', JStr ''high''), (''feedback'', JArr [])])))))
          example_user example_challenge ''QUJD'' example_prompt) =
       Inl (Error ''Analysis failed: Model returned malformed analysis data.'')"
proof -
  have h1: "getAi (oracle_env a) = Inr ()" for a by (simp add: oracle_env_def)
  have h3: "generateContent (oracle_env (Inr r)) q = Inr r" for r q
    by (simp add: oracle_env_def)
  note a = analyzeImages_response [OF h1 example_stitched h3,
      of "Some (Wellformed (JObj [(''similarityScore'', JNum 85),
                                  (''feedback'', JArr [JStr ''Mention the lighting''])]))"
         example_user example_prompt JNull]
  note b = analyzeImages_response [OF h1 example_stitched h3,
      of "Some (Wellformed (JObj [(''similarityScore'', JStr ''high''), (''feedback'', JArr [])]))"
         example_user example_prompt JNull]
  from a b h1 show ?thesis by (simp add: malformed_def)
qed

text \<open>
  Claim C1 as stated fails: the response
  \<^verbatim>\<open>{"similarityScore": 50, "feedback": [1, 2, 3, 4]}\<close> is returned to the caller although
  its feedback holds four elements, none of them a string.
\<close>

theorem analyzeImages_accepts_unchecked_feedback:
  "fst (analyzeImages (oracle_env (Inr (Some (Wellformed
         (JObj [(''similarityScore'', JNum 50),
                (''feedback'', JArr [JNum 1, JNum 2, JNum 3, JNum 4])])))))
       example_user example_challenge ''QUJD'' example_prompt) =
     Inr (JObj [(''similarityScore'', JNum 50),
                (''feedback'', JArr [JNum 1, JNum 2, JNum 3, JNum 4])])
   \<and> \<not> spec_response_schema
         (JObj [(''similarityScore'', JNum 50),
                (''feedback'', JArr [JNum 1, JNum 2, JNum 3, JNum 4])])"
  by (simp add: analyzeImages_def example_analyze_try malformed_def spec_response_schema_def)

text \<open>
  Claim C5, as amended. For every value returned by the scoring operation, its
  \<^verbatim>\<open>similarityScore\<close> is a number and its \<^verbatim>\<open>feedback\<close> is an array; the range of the score,
  the length of the array and the type of its elements are asked of the oracle but not
  checked.
\<close>

theorem analyzeImages_returned_shape:
  assumes "fst (analyzeImages env user challenge generatedImageBase64 userPrompt) = Inr result"
  shows "\<exists>properties n xs. result = JObj properties
        \<and> field result ''similarityScore'' = Some (JNum n)
        \<and> field result ''feedback'' = Some (JArr xs)"
proof -
  from assms have "\<not> malformed result"
    by (auto simp: analyzeImages_def analyze_try_def Let_def
          split: sum.splits prod.splits option.splits if_splits)
  then show ?thesis by (auto simp: accepted_iff)
qed

theorem analyzeImages_returned_shape_witness:
  "fst (analyzeImages (oracle_env (Inr (Some (Wellformed
         (JObj [(''similarityScore'', JNum 72.5), (''feedback'', JArr [])])))))
       example_user example_challenge ''QUJD'' example_prompt) =
     Inr (JObj [(''similarityScore'', JNum 72.5), (''feedback'', JArr [])])
   \<and> (\<exists>properties n xs.
        JObj [(''similarityScore'', JNum 72.5), (''feedback'', JArr [])] = JObj properties
        \<and> field (JObj [(''similarityScore'', JNum 72.5), (''feedback'', JArr [])])
            ''similarityScore'' = Some (JNum n)
        \<and> field (JObj [(''similarityScore'', JNum 72.5), (''feedback'', JArr [])])
            ''feedback'' = Some (JArr xs))"
proof -
  have r: "fst (analyzeImages (oracle_env (Inr (Some (Wellformed
         (JObj [(''similarityScore'', JNum 72.5), (''feedback'', JArr [])])))))
       example_user example_challenge ''QUJD'' example_prompt) =
     Inr (JObj [(''similarityScore'', JNum 72.5), (''feedback'', JArr [])])"
    by (simp add: analyzeImages_def example_analyze_try malformed_def)
  from r analyzeImages_returned_shape [OF r] show ?thesis by (rule conjI)
qed

text \<open>
  Claim C5 as stated fails: the response
  \<^verbatim>\<open>{"similarityScore": 150, "feedback": ["a", "b", "c", "d"]}\<close> is returned with a score
  above 100 and four feedback strings.
\<close>

theorem analyzeImages_returns_out_of_range:
  "fst (analyzeImages (oracle_env (Inr (Some (Wellformed
         (JObj [(''similarityScore'', JNum 150),
                (''feedback'', JArr [JStr ''a'', JStr ''b'', JStr ''c'', JStr ''d''])])))))
       example_user example_challenge ''QUJD'' example_prompt) =
     Inr (JObj [(''similarityScore'', JNum 150),
                (''feedback'', JArr [JStr ''a'', JStr ''b'', JStr ''c'', JStr ''d''])])
   \<and> \<not> spec_AnalysisResult
         (JObj [(''similarityScore'', JNum 150),
                (''feedback'', JArr [JStr ''a'', JStr ''b'', JStr ''c'', JStr ''d''])])"
  by (simp add: analyzeImages_def example_analyze_try malformed_def spec_AnalysisResult_def)

text \<open>When the oracle cannot be reached, it was called once and its error is passed on.\<close>

lemma analyzeImages_oracle_failure:
  assumes "getAi env = Inr ()"
    and "stitchImages (page env) (imageUrl challenge) generatedImageBase64 = (Inr payload, revoked)"
    and "generateContent env (scoring_request env user challenge payload userPrompt) = Inl e"
  shows "analyzeImages env user challenge generatedImageBase64 userPrompt =
     (Inl (rethrow e),
      map RevokeObjectURL revoked
        @ [GenerateContent (scoring_request env user challenge payload userPrompt)])"
  using assms by (simp add: analyzeImages_def analyze_try_def Let_def)

text \<open>
  Claim C3, as amended. Every failure inside the scoring operation reaches the caller, as
  a plain \<^verbatim>\<open>Error\<close> in one of two forms: \<^verbatim>\<open>Analysis failed: \<close> followed by the message of the
  error that was thrown (an unreachable oracle, a schema violation, an unparseable
  response and a failed image composition alike), or
  \<^verbatim>\<open>An unknown error occurred during analysis.\<close> when the thrown value is not an
  \<^verbatim>\<open>Error\<close>. Nothing is retried: the oracle is called at most once.
\<close>

theorem analyzeImages_failures:
  "(\<forall>error. fst (analyze_try env user challenge generatedImageBase64 userPrompt) = Inl error \<longrightarrow>
       fst (analyzeImages env user challenge generatedImageBase64 userPrompt) = Inl (rethrow error))
   \<and> (\<forall>e. fst (analyzeImages env user challenge generatedImageBase64 userPrompt) = Inl e \<longrightarrow>
         (\<exists>message. e = Error (''Analysis failed: '' @ message))
         \<or> e = Error ''An unknown error occurred during analysis.'')
   \<and> length (filter (\<lambda>c. case c of GenerateContent q \<Rightarrow> True | RevokeObjectURL url \<Rightarrow> False)
         (snd (analyzeImages env user challenge generatedImageBase64 userPrompt))) \<le> 1"
proof (intro conjI allI impI)
  fix error
  assume "fst (analyze_try env user challenge generatedImageBase64 userPrompt) = Inl error"
  then show "fst (analyzeImages env user challenge generatedImageBase64 userPrompt) =
      Inl (rethrow error)"
    by (cases "analyze_try env user challenge generatedImageBase64 userPrompt")
       (simp add: analyzeImages_def)
next
  fix e
  assume "fst (analyzeImages env user challenge generatedImageBase64 userPrompt) = Inl e"
  then obtain error where "e = rethrow error"
    by (cases "analyze_try env user challenge generatedImageBase64 userPrompt")
       (auto simp: analyzeImages_def split: sum.splits)
  then show "(\<exists>message. e = Error (''Analysis failed: '' @ message))
         \<or> e = Error ''An unknown error occurred during analysis.''"
    by (cases error) simp_all
next
  have revokes:
    "filter (\<lambda>c. case c of GenerateContent q \<Rightarrow> True | RevokeObjectURL url \<Rightarrow> False)
       (map RevokeObjectURL urls) = []" for urls
    by (induction urls) simp_all
  show "length (filter (\<lambda>c. case c of GenerateContent q \<Rightarrow> True | RevokeObjectURL url \<Rightarrow> False)
         (snd (analyzeImages env user challenge generatedImageBase64 userPrompt))) \<le> 1"
    by (auto simp: analyzeImages_def analyze_try_def Let_def revokes
          split: sum.splits prod.splits option.splits if_splits)
qed

theorem analyzeImages_failures_witness:
  "fst (analyze_try (oracle_env (Inl NonError)) example_user example_challenge ''QUJD''
          example_prompt) = Inl NonError
   \<and> fst (analyzeImages (oracle_env (Inl NonError)) example_user example_challenge ''QUJD''
          example_prompt) =
       Inl (Error ''An unknown error occurred during analysis.'')
   \<and> fst (analyzeImages (oracle_env (Inl (Error ''fetch failed''))) example_user
          example_challenge ''QUJD'' example_prompt) =
       Inl (Error ''Analysis failed: fetch failed'')
   \<and> snd (analyzeImages (oracle_env (Inl (Error ''fetch failed''))) example_user
          example_challenge ''QUJD'' example_prompt) =
       [RevokeObjectURL ''blob:/targets/1.png'',
        GenerateContent (scoring_request (oracle_env (Inl (Error ''fetch failed'')))
                           example_user example_challenge (Some ''AAAA'') example_prompt)]"
proof -
  have t1: "fst (analyze_try (oracle_env (Inl NonError)) example_user example_challenge ''QUJD''
      example_prompt) = Inl NonError"
    by (simp add: example_analyze_try)
  have t2: "fst (analyze_try (oracle_env (Inl (Error ''fetch failed''))) example_user
      example_challenge ''QUJD'' example_prompt) = Inl (Error ''fetch failed'')"
    by (simp add: example_analyze_try)
  have c: "snd (analyzeImages (oracle_env (Inl (Error ''fetch failed''))) example_user
          example_challenge ''QUJD'' example_prompt) =
       [RevokeObjectURL ''blob:/targets/1.png'',
        GenerateContent (scoring_request (oracle_env (Inl (Error ''fetch failed'')))
                           example_user example_challenge (Some ''AAAA'') example_prompt)]"
    by (simp add: analyzeImages_def example_analyze_try)
  from analyzeImages_failures
         [of "oracle_env (Inl NonError)" example_user example_challenge "''QUJD''" example_prompt] t1
  have a: "fst (analyzeImages (oracle_env (Inl NonError)) example_user example_challenge ''QUJD''
      example_prompt) = Inl (rethrow NonError)" by blast
  from analyzeImages_failures
         [of "oracle_env (Inl (Error ''fetch failed''))" example_user example_challenge "''QUJD''"
             example_prompt] t2
  have b: "fst (analyzeImages (oracle_env (Inl (Error ''fetch failed''))) example_user
      example_challenge ''QUJD'' example_prompt) = Inl (rethrow (Error ''fetch failed''))"
    by blast
  from t1 a b c show ?thesis by simp
qed

text \<open>
  Claim C3 as stated fails: the surfaced error carries no kind. An oracle that cannot be
  reached (its error reading \<^verbatim>\<open>Model returned malformed analysis data.\<close>) and a schema
  violation (\<^verbatim>\<open>{"similarityScore": "high", "feedback": []}\<close>) give the caller the same error.
\<close>

theorem analyzeImages_kinds_coincide:
  "fst (analyzeImages (oracle_env (Inl (Error ''Model returned malformed analysis data.'')))
          example_user example_challenge ''QUJD'' example_prompt) =
     Inl (Error ''Analysis failed: Model returned malformed analysis data.'')
   \<and> fst (analyzeImages (oracle_env (Inr (Some (Wellformed
            (JObj [(''similarityScore'', JStr ''high''), (''feedback'', JArr [])])))))
          example_user example_challenge ''QUJD'' example_prompt) =
     Inl (Error ''Analysis failed: Model returned malformed analysis data.'')"
  by (simp add: analyzeImages_def example_analyze_try malformed_def)

section \<open>Signing up and logging in\<close>

text \<open>With a stored password that is not empty, both operations do what their messages say.\<close>

lemma signup_existing_nonempty:
  assumes "getUsers s = Inr users" and "map_of users u = Some p" and "p \<noteq> []"
  shows "signup u password s = (Inl (Error ''Username already exists.''), s)"
  using assms by (simp add: signup_def get_def)

lemma login_then_getCurrentUser:
  assumes "getUsers s = Inr users" and "map_of users u = Some p" and "p \<noteq> []"
  shows "fst (login u p s) = Inr \<lparr>username = u\<rparr>
     \<and> fst (getCurrentUser (snd (login u p s))) = Some \<lparr>username = u\<rparr>"
  using assms by (simp add: login_def get_def getCurrentUser_def setCurrentUser_def Let_def)

text \<open>
  Claim C9. A signup with a username that already exists in the stored users map should
  throw and leave the stored map unchanged. The code tests \<^verbatim>\<open>users[username]\<close> for
  truthiness, so a user stored with the empty password does not count as existing: after
  \<^verbatim>\<open>signup('bob', '')\<close> has succeeded, \<^verbatim>\<open>signup('bob', 'hunter2')\<close> succeeds as well and
  overwrites the stored password.
\<close>

theorem signup_overwrites_empty_password:
  "fst (signup ''bob'' '''' fresh_auth) = Inr \<lparr>username = ''bob''\<rparr>
   \<and> getUsers (snd (signup ''bob'' '''' fresh_auth)) = Inr [(''bob'', '''')]
   \<and> fst (signup ''bob'' ''hunter2'' (snd (signup ''bob'' '''' fresh_auth))) =
        Inr \<lparr>username = ''bob''\<rparr>
   \<and> getUsers (snd (signup ''bob'' ''hunter2'' (snd (signup ''bob'' '''' fresh_auth)))) =
        Inr [(''bob'', ''hunter2'')]"
  by (simp add: signup_def login_def getUsers_def setUsers_def setCurrentUser_def get_def
        fresh_auth_def Object_prototype_def JSON_stringify_def Let_def)

text \<open>
  Claim C10. For a username registered with a password, \<^verbatim>\<open>login\<close> followed by
  \<^verbatim>\<open>getCurrentUser\<close> should return that user. For the user registered with the empty
  password by \<^verbatim>\<open>signup('bob', '')\<close>, \<^verbatim>\<open>login('bob', '')\<close> instead throws
  \<^verbatim>\<open>User not found. Please sign up first.\<close>
\<close>

theorem login_rejects_registered_empty_password:
  "fst (signup ''bob'' '''' fresh_auth) = Inr \<lparr>username = ''bob''\<rparr>
   \<and> getUsers (snd (signup ''bob'' '''' fresh_auth)) = Inr [(''bob'', '''')]
   \<and> fst (login ''bob'' '''' (snd (signup ''bob'' '''' fresh_auth))) =
        Inl (Error ''User not found. Please sign up first.'')"
  by (simp add: signup_def login_def getUsers_def setUsers_def setCurrentUser_def get_def
        fresh_auth_def Object_prototype_def JSON_stringify_def Let_def)

end
